theory Spec2Isabelle
  imports
    Complex_Main
    "HOL-Library.AList"
    "HOL-Library.Sublist"
    "HOL-Library.Char_ord"
    "HOL-Library.List_Lexorder"
    "HOL-Library.Product_Lexorder"
begin

section \<open>Progress store\<close>

text \<open>
  A progress record is the dictionary \<^verbatim>\<open>{"position": ..., "duration": ..., "played": ...}\<close>
  that \<^verbatim>\<open>ProgressStore.set\<close> builds. Python floats are idealised as real numbers
  (finite values, exact arithmetic).
\<close>

record progress_record =
  position :: real
  duration :: real
  played :: bool

text \<open>
  The snapshot is a Python \<^verbatim>\<open>dict\<close> from keys to records: an association list in
  insertion order. \<^verbatim>\<open>data[key] = payload\<close> replaces the value of a key that is
  present where it stands and appends a new key at the end, which is what
  \<^const>\<open>AList.update\<close> does; \<^verbatim>\<open>data.get(key)\<close> is \<^const>\<open>map_of\<close>.
\<close>

type_synonym snapshot = "(string \<times> progress_record) list"

text \<open>
  The backing file, as \<^verbatim>\<open>_load\<close> sees it through \<^verbatim>\<open>exists\<close>, \<^verbatim>\<open>read_text\<close>,
  \<^verbatim>\<open>str.strip\<close> and \<^verbatim>\<open>json.loads\<close>:
  \<^item> \<open>NoFile\<close>: \<^verbatim>\<open>storage_path.exists()\<close> is false;
  \<^item> \<open>Blank\<close>: the text is empty or whitespace only (\<^verbatim>\<open>content.strip()\<close> is empty);
  \<^item> \<open>Malformed\<close>: \<^verbatim>\<open>json.loads\<close> raises \<^verbatim>\<open>JSONDecodeError\<close> on the text;
  \<^item> \<open>Json d\<close>: \<^verbatim>\<open>json.loads\<close> returns the object \<open>d\<close>, of the type
    \<^verbatim>\<open>Dict[str, Dict[str, float]]\<close> that \<^verbatim>\<open>_load\<close> declares.
  \<^verbatim>\<open>_save\<close> writes \<^verbatim>\<open>json.dumps(data)\<close>, which \<^verbatim>\<open>json.loads\<close> reads back as \<open>data\<close>.
  These are the states that the program itself can leave the file in: it only ever writes
  objects of records, as ASCII text, and a write that is cut short leaves a blank or a
  malformed text.
\<close>

datatype storage_file = NoFile | Blank | Malformed | Json snapshot

fun load :: "storage_file \<Rightarrow> snapshot" where
  "load NoFile = []"
| "load Blank = []"
| "load Malformed = []"
| "load (Json d) = d"

definition save :: "snapshot \<Rightarrow> storage_file" where
  "save data = Json data"

text \<open>\<^verbatim>\<open>ProgressStore.get\<close>: load under the lock, then \<^verbatim>\<open>data.get(key)\<close>.\<close>

definition store_get :: "storage_file \<Rightarrow> string \<Rightarrow> progress_record option" where
  "store_get f key = map_of (load f) key"

text \<open>\<^verbatim>\<open>ProgressStore.set\<close>: build the payload, then load, assign and save under the lock.\<close>

definition store_set :: "storage_file \<Rightarrow> string \<Rightarrow> real \<Rightarrow> real \<Rightarrow> bool \<Rightarrow> storage_file" where
  "store_set f key pos dur pl =
     (let payload = \<lparr>position = pos, duration = dur, played = pl\<rparr>;
          data = load f;
          data = AList.update key payload data
      in save data)"

section \<open>Strings\<close>

text \<open>
  A string is a list of bytes, the UTF-8 encoding of the Python \<^verbatim>\<open>str\<close>.
  \<^verbatim>\<open>str.lower\<close> is modelled on ASCII letters; other bytes are left as they are.
\<close>

definition lower_char :: "char \<Rightarrow> char" where
  "lower_char c =
     (if CHR ''A'' \<le> c \<and> c \<le> CHR ''Z'' then char_of (of_char c + (32::nat)) else c)"

definition lower :: "string \<Rightarrow> string" where
  "lower s = map lower_char s"

definition startswith :: "string \<Rightarrow> string \<Rightarrow> bool" where
  "startswith s p = (take (length p) s = p)"

text \<open>\<^verbatim>\<open>s.split(c)\<close>: the pieces of \<open>s\<close> between the occurrences of \<open>c\<close>.\<close>

fun split_sep :: "char \<Rightarrow> string \<Rightarrow> string list" where
  "split_sep c [] = [[]]"
| "split_sep c (x # xs) =
     (if x = c then [] # split_sep c xs
      else (case split_sep c xs of [] \<Rightarrow> [[x]] | p # ps \<Rightarrow> (x # p) # ps))"

text \<open>\<^verbatim>\<open>sep.join(xs)\<close>.\<close>

fun join_sep :: "string \<Rightarrow> string list \<Rightarrow> string" where
  "join_sep sep [] = []"
| "join_sep sep [x] = x"
| "join_sep sep (x # y # ys) = x @ sep @ join_sep sep (y # ys)"

text \<open>\<^verbatim>\<open>s.rfind(c)\<close>, with \<open>None\<close> for Python's \<open>-1\<close>.\<close>

fun rfind :: "char \<Rightarrow> string \<Rightarrow> nat option" where
  "rfind c [] = None"
| "rfind c (x # xs) =
     (case rfind c xs of
        Some i \<Rightarrow> Some (Suc i)
      | None \<Rightarrow> if x = c then Some 0 else None)"

section \<open>Paths\<close>

text \<open>
  An absolute POSIX path is the list of its components below \<^verbatim>\<open>/\<close>; the empty list is
  \<^verbatim>\<open>/\<close> itself. A path that has been through \<^verbatim>\<open>Path.resolve\<close> holds no \<^verbatim>\<open>.\<close> or
  \<^verbatim>\<open>..\<close> component; a path that has not may hold \<^verbatim>\<open>..\<close>.
\<close>

type_synonym path = "string list"

text \<open>
  How \<^verbatim>\<open>pathlib\<close> reads a string: the root is \<^verbatim>\<open>//\<close> for exactly two leading slashes,
  \<^verbatim>\<open>/\<close> for one or for three and more, and empty for a relative path; the components are
  the pieces between slashes, without the empty ones and without \<^verbatim>\<open>.\<close>.
\<close>

definition path_root :: "string \<Rightarrow> string" where
  "path_root s =
     (if startswith s ''//'' \<and> \<not> startswith s ''///'' then ''//''
      else if startswith s ''/'' then ''/''
      else [])"

definition path_parts :: "string \<Rightarrow> string list" where
  "path_parts s = filter (\<lambda>x. x \<noteq> [] \<and> x \<noteq> ''.'') (split_sep CHR ''/'' s)"

text \<open>
  \<^verbatim>\<open>MEDIA_ROOT / relative_path\<close>, as the absolute path that \<^verbatim>\<open>resolve\<close> is then given:
  an operand with a root of its own replaces the left operand, a relative one is appended.
  (\<^verbatim>\<open>resolve\<close> reads a leading \<^verbatim>\<open>//\<close> as \<^verbatim>\<open>/\<close>, so the two roots are not told
  apart here.)
\<close>

definition joinpath :: "path \<Rightarrow> string \<Rightarrow> path" where
  "joinpath base s = (if path_root s \<noteq> [] then path_parts s else base @ path_parts s)"

text \<open>\<^verbatim>\<open>p.parents\<close>: the proper ancestors of \<open>p\<close>, nearest first, ending with \<^verbatim>\<open>/\<close>.\<close>

definition parents :: "path \<Rightarrow> path list" where
  "parents p = map (\<lambda>n. take n p) (rev [0..<length p])"

text \<open>\<^verbatim>\<open>p.name\<close>: the last component, empty for \<^verbatim>\<open>/\<close>.\<close>

definition name :: "path \<Rightarrow> string" where
  "name p = (if p = [] then [] else last p)"

text \<open>
  \<^verbatim>\<open>p.suffix\<close>: the name from its last dot on, when that dot is neither the first nor the
  last character of the name; empty otherwise.
\<close>

definition suffix_of :: "path \<Rightarrow> string" where
  "suffix_of p =
     (let nm = name p in
      case rfind CHR ''.'' nm of
        None \<Rightarrow> []
      | Some i \<Rightarrow> if 0 < i \<and> Suc i < length nm then drop i nm else [])"

text \<open>\<^verbatim>\<open>str(p)\<close> for an absolute path.\<close>

definition str_abs :: "path \<Rightarrow> string" where
  "str_abs p = CHR ''/'' # join_sep ''/'' p"

text \<open>\<^verbatim>\<open>str(p)\<close> for a relative path given by its components: \<^verbatim>\<open>.\<close> when there are none.\<close>

definition str_rel :: "string list \<Rightarrow> string" where
  "str_rel ps = (if ps = [] then ''.'' else join_sep ''/'' ps)"

section \<open>Errors\<close>

text \<open>
  What a function of the program raises: FastAPI's \<^verbatim>\<open>HTTPException\<close> with its status code
  and detail, or the \<^verbatim>\<open>ValueError\<close> of \<^verbatim>\<open>Path.relative_to\<close>.
\<close>

datatype exception = HTTPException nat string | ValueError

fun status_code :: "exception \<Rightarrow> nat option" where
  "status_code (HTTPException c d) = Some c"
| "status_code ValueError = None"

definition client_error :: "exception \<Rightarrow> bool" where
  "client_error e = (case status_code e of None \<Rightarrow> False | Some c \<Rightarrow> 400 \<le> c \<and> c < 500)"

text \<open>\<^verbatim>\<open>p.relative_to(base)\<close>: the components of \<open>p\<close> below \<open>base\<close>.\<close>

definition relative_to :: "path \<Rightarrow> path \<Rightarrow> exception + string list" where
  "relative_to p base =
     (if take (length base) p = base then Inr (drop (length base) p) else Inl ValueError)"

section \<open>File system and configuration\<close>

text \<open>
  The file system as the program reads it:
  \<^item> \<open>fs_resolve\<close> is \<^verbatim>\<open>Path.resolve\<close>, the canonical form of an absolute path
    (\<^verbatim>\<open>..\<close> and symbolic links resolved);
  \<^item> \<open>fs_stat\<close> is what \<^verbatim>\<open>exists\<close>, \<^verbatim>\<open>is_dir\<close> and \<^verbatim>\<open>is_file\<close> report, symbolic links
    followed; \<open>None\<close> when nothing is there;
  \<^item> \<open>fs_listdir\<close> gives the names in a directory, in the order \<^verbatim>\<open>iterdir\<close> yields them.
\<close>

datatype kind = Directory | RegularFile | Special

record filesystem =
  fs_resolve :: "path \<Rightarrow> path"
  fs_stat :: "path \<Rightarrow> kind option"
  fs_listdir :: "path \<Rightarrow> string list"

definition exists :: "filesystem \<Rightarrow> path \<Rightarrow> bool" where
  "exists fs p = (fs_stat fs p \<noteq> None)"

definition is_dir :: "filesystem \<Rightarrow> path \<Rightarrow> bool" where
  "is_dir fs p = (fs_stat fs p = Some Directory)"

definition is_file :: "filesystem \<Rightarrow> path \<Rightarrow> bool" where
  "is_file fs p = (fs_stat fs p = Some RegularFile)"

definition iterdir :: "filesystem \<Rightarrow> path \<Rightarrow> path list" where
  "iterdir fs d = map (\<lambda>n. d @ [n]) (fs_listdir fs d)"

text \<open>
  \<^verbatim>\<open>Path.resolve\<close> on a file system without symbolic links: each \<^verbatim>\<open>..\<close> drops the
  component before it, and \<^verbatim>\<open>/..\<close> is \<^verbatim>\<open>/\<close>.
\<close>

fun resolve_from :: "path \<Rightarrow> path \<Rightarrow> path" where
  "resolve_from acc [] = acc"
| "resolve_from acc (c # cs) =
     (if c = ''..'' then resolve_from (butlast acc) cs
      else if c = ''.'' \<or> c = [] then resolve_from acc cs
      else resolve_from (acc @ [c]) cs)"

definition resolve_nolinks :: "path \<Rightarrow> path" where
  "resolve_nolinks p = resolve_from [] p"

text \<open>
  The configuration read at start-up and the library functions the handlers call:
  \<^verbatim>\<open>urllib.parse.quote\<close> and \<^verbatim>\<open>unquote\<close>, and \<^verbatim>\<open>mimetypes.guess_type\<close>.
  \<open>MEDIA_ROOT\<close> is an absolute path that has been through \<^verbatim>\<open>resolve\<close> at start-up.
\<close>

record environment =
  MEDIA_ROOT :: path
  AUTH_PASSWORD :: string
  quote :: "string \<Rightarrow> string"
  unquote :: "string \<Rightarrow> string"
  guess_type :: "string \<Rightarrow> string option"

definition AUDIO_EXTENSIONS :: "string list" where
  "AUDIO_EXTENSIONS = [''.mp3'', ''.wav'', ''.ogg'', ''.m4a'', ''.flac'', ''.aac'', ''.opus'']"

section \<open>Path confinement\<close>

text \<open>
  \<^verbatim>\<open>validate_within_media_root\<close>: resolve the target, raise the 400 error when the media
  root is neither among the parents of the resolved path nor the resolved path itself,
  and return the resolved path otherwise.
\<close>

definition validate_within_media_root ::
  "environment \<Rightarrow> filesystem \<Rightarrow> path \<Rightarrow> exception + path" where
  "validate_within_media_root env fs target =
     (let resolved = fs_resolve fs target in
      if MEDIA_ROOT env \<notin> set (parents resolved) \<and> resolved \<noteq> MEDIA_ROOT env
      then Inl (HTTPException 400 ''Requested path is outside the media root'')
      else Inr resolved)"

text \<open>
  \<^verbatim>\<open>get_audio_file\<close>: confine, then require an existing regular file whose suffix, in
  lower case, is an audio extension.
\<close>

definition get_audio_file :: "environment \<Rightarrow> filesystem \<Rightarrow> string \<Rightarrow> exception + path" where
  "get_audio_file env fs relative_path =
     (case validate_within_media_root env fs (joinpath (MEDIA_ROOT env) relative_path) of
        Inl e \<Rightarrow> Inl e
      | Inr file_path \<Rightarrow>
          if \<not> exists fs file_path \<or> \<not> is_file fs file_path
          then Inl (HTTPException 404 ''Audio file not found'')
          else if lower (suffix_of file_path) \<notin> set AUDIO_EXTENSIONS
          then Inl (HTTPException 400 ''Unsupported file type'')
          else Inr file_path)"

section \<open>Directory catalog\<close>

datatype DirectoryEntry = DirectoryEntry (de_name: string) (de_path: string)

datatype AudioEntry = AudioEntry (ae_name: string) (ae_path: string) (ae_played: bool)

text \<open>
  The body of the loop of \<^verbatim>\<open>list_directory\<close>, over the entries already sorted, with the
  two result lists as accumulators. A hidden entry is skipped; a directory is appended to
  the directories; a regular file with an audio suffix is appended to the audio files,
  with the played flag of its progress record (false when there is none).
\<close>

fun scan ::
  "environment \<Rightarrow> filesystem \<Rightarrow> storage_file \<Rightarrow> path list \<Rightarrow>
   DirectoryEntry list \<times> AudioEntry list \<Rightarrow>
   exception + (DirectoryEntry list \<times> AudioEntry list)" where
  "scan env fs store [] acc = Inr acc"
| "scan env fs store (entry # rest) (directories, audio_files) =
     (if startswith (name entry) ''.'' then scan env fs store rest (directories, audio_files)
      else
        (case relative_to entry (MEDIA_ROOT env) of
           Inl e \<Rightarrow> Inl e
         | Inr rel \<Rightarrow>
             (let rel_path = str_rel rel in
              if is_dir fs entry
              then scan env fs store rest
                     (directories @ [DirectoryEntry (name entry) rel_path], audio_files)
              else if is_file fs entry \<and> lower (suffix_of entry) \<in> set AUDIO_EXTENSIONS
              then
                (let progress = store_get store rel_path;
                     pl = (case progress of None \<Rightarrow> False | Some r \<Rightarrow> played r)
                 in scan env fs store rest
                      (directories, audio_files @ [AudioEntry (name entry) rel_path pl]))
              else scan env fs store rest (directories, audio_files))))"

text \<open>
  \<^verbatim>\<open>list_directory\<close>: confine the directory, require it to exist and be a directory, sort
  its entries by the key \<^verbatim>\<open>(not p.is_dir(), p.name.lower())\<close> (a stable sort, as Python's
  \<^verbatim>\<open>sorted\<close> is) and run the loop.
\<close>

definition sort_entries :: "filesystem \<Rightarrow> path list \<Rightarrow> path list" where
  "sort_entries fs ps = sort_key (\<lambda>p. (\<not> is_dir fs p, lower (name p))) ps"

definition list_directory ::
  "environment \<Rightarrow> filesystem \<Rightarrow> storage_file \<Rightarrow> string \<Rightarrow>
   exception + (DirectoryEntry list \<times> AudioEntry list)" where
  "list_directory env fs store relative_path =
     (case validate_within_media_root env fs (joinpath (MEDIA_ROOT env) relative_path) of
        Inl e \<Rightarrow> Inl e
      | Inr directory \<Rightarrow>
          if \<not> exists fs directory \<or> \<not> is_dir fs directory
          then Inl (HTTPException 404 ''Directory not found'')
          else scan env fs store (sort_entries fs (iterdir fs directory)) ([], []))"

text \<open>
  Pure paths, for \<^verbatim>\<open>breadcrumb\<close> and the parent link: a root (empty, \<^verbatim>\<open>/\<close> or
  \<^verbatim>\<open>//\<close>) and the components.
\<close>

datatype purepath = PurePath (pp_root: string) (pp_comps: "string list")

definition Path :: "string \<Rightarrow> purepath" where
  "Path s = PurePath (path_root s) (path_parts s)"

definition parts :: "purepath \<Rightarrow> string list" where
  "parts p = (if pp_root p = [] then pp_comps p else pp_root p # pp_comps p)"

definition str_path :: "purepath \<Rightarrow> string" where
  "str_path p =
     (if pp_root p = [] \<and> pp_comps p = [] then ''.''
      else pp_root p @ join_sep ''/'' (pp_comps p))"

definition truediv :: "purepath \<Rightarrow> string \<Rightarrow> purepath" where
  "truediv p s =
     (if path_root s \<noteq> [] then Path s
      else PurePath (pp_root p) (pp_comps p @ path_parts s))"

definition parent :: "purepath \<Rightarrow> purepath" where
  "parent p = PurePath (pp_root p) (butlast (pp_comps p))"

fun crumbs_from :: "purepath \<Rightarrow> string list \<Rightarrow> DirectoryEntry list" where
  "crumbs_from accumulator [] = []"
| "crumbs_from accumulator (part # rest) =
     (let accumulator = truediv accumulator part
      in DirectoryEntry part (str_path accumulator) # crumbs_from accumulator rest)"

definition breadcrumb :: "string \<Rightarrow> DirectoryEntry list" where
  "breadcrumb relative_path =
     (if relative_path = [] then []
      else crumbs_from (PurePath [] []) (parts (Path relative_path)))"

section \<open>Session and CSRF token\<close>

text \<open>
  The session is the dictionary that the session middleware keeps in a signed cookie. The
  program stores two keys in it: \<^verbatim>\<open>"authenticated"\<close>, only ever set to \<^verbatim>\<open>True\<close>, and
  \<^verbatim>\<open>"csrf_token"\<close>, only ever set to a string. A missing key is \<open>None\<close>.
\<close>

record session =
  authenticated :: "bool option"
  csrf_token :: "string option"

definition empty_session :: session where
  "empty_session = \<lparr>authenticated = None, csrf_token = None\<rparr>"

text \<open>
  \<^verbatim>\<open>secrets.token_urlsafe(32)\<close> draws from the operating system's random source. The
  source is the sequence of the tokens that the successive calls return: a call takes the
  first and leaves the rest.
\<close>

type_synonym entropy = "nat \<Rightarrow> string"

definition token_urlsafe :: "entropy \<Rightarrow> string \<times> entropy" where
  "token_urlsafe rnd = (rnd 0, \<lambda>n. rnd (Suc n))"

text \<open>
  \<^verbatim>\<open>ensure_csrf_token\<close>: the token of the session when there is one, else a token
  newly drawn and stored in the session.
\<close>

definition ensure_csrf_token :: "session \<Rightarrow> entropy \<Rightarrow> string \<times> session \<times> entropy" where
  "ensure_csrf_token sess rnd =
     (case csrf_token sess of
        Some token \<Rightarrow>
          if token \<noteq> [] then (token, sess, rnd)
          else (let (token, rnd) = token_urlsafe rnd
                in (token, sess\<lparr>csrf_token := Some token\<rparr>, rnd))
      | None \<Rightarrow>
          (let (token, rnd) = token_urlsafe rnd
           in (token, sess\<lparr>csrf_token := Some token\<rparr>, rnd)))"

text \<open>
  \<^verbatim>\<open>secrets.compare_digest\<close> on two \<^verbatim>\<open>str\<close>: equality, and a \<^verbatim>\<open>TypeError\<close> (here
  \<open>None\<close>) when one of them holds a character that is not ASCII.
\<close>

definition is_ascii :: "string \<Rightarrow> bool" where
  "is_ascii s = list_all (\<lambda>c. (of_char c :: nat) < 128) s"

definition compare_digest :: "string \<Rightarrow> string \<Rightarrow> bool option" where
  "compare_digest a b = (if is_ascii a \<and> is_ascii b then Some (a = b) else None)"

text \<open>
  \<^verbatim>\<open>validate_csrf_token\<close>: false when the session has no token or the submitted one is
  empty, the comparison otherwise, and false when the comparison raises.
\<close>

definition validate_csrf_token :: "session \<Rightarrow> string \<Rightarrow> bool" where
  "validate_csrf_token sess token =
     (case csrf_token sess of
        None \<Rightarrow> False
      | Some expected \<Rightarrow>
          if expected = [] \<or> token = [] then False
          else (case compare_digest token expected of
                  Some r \<Rightarrow> r
                | None \<Rightarrow> False))"

definition is_authenticated :: "session \<Rightarrow> bool" where
  "is_authenticated sess = (authenticated sess = Some True)"

section \<open>Requests and responses\<close>

text \<open>
  What the handlers read of a request besides their parameters: the session, the URL of
  the request (path and query string), its \<^verbatim>\<open>next\<close> query parameter and the base that \<^verbatim>\<open>url_for\<close> builds on.
  \<^verbatim>\<open>url_for("login")\<close> is the base followed by \<^verbatim>\<open>/login\<close>, \<^verbatim>\<open>url_for("index")\<close> the
  base followed by \<^verbatim>\<open>/\<close>.
\<close>

record request =
  req_session :: session
  base_url :: string
  url_path :: string
  url_query :: string
  query_next :: "string option"

definition url_for_login :: "request \<Rightarrow> string" where
  "url_for_login req = base_url req @ ''/login''"

definition url_for_index :: "request \<Rightarrow> string" where
  "url_for_index req = base_url req @ ''/''"

datatype json = JNumber real | JBool bool | JString string

text \<open>
  The responses: a rendered template with its context and status, a redirect with its
  location and status, a JSON object, and a file served from a path.
\<close>

record login_context =
  lc_next_path :: string
  lc_error :: "string option"
  lc_csrf_token :: string

record index_context =
  ic_current_path :: string
  ic_breadcrumbs :: "DirectoryEntry list"
  ic_directories :: "DirectoryEntry list"
  ic_audio_files :: "AudioEntry list"
  ic_parent_path :: "string option"
  ic_media_root :: string
  ic_csrf_token :: string

datatype response =
    LoginTemplate login_context nat
  | IndexTemplate index_context nat
  | RedirectResponse string nat
  | JSONResponse "(string \<times> json) list"
  | FileResponse path "string option" string "(string \<times> string) list"

text \<open>
  \<^verbatim>\<open>login_redirect\<close>: a 303 redirect to the login page, with the URL of the request,
  quoted, as the \<^verbatim>\<open>next\<close> parameter.
\<close>

definition login_redirect :: "environment \<Rightarrow> request \<Rightarrow> response" where
  "login_redirect env req =
     (let login_url = url_for_login req;
          location = url_path req;
          location = (if url_query req \<noteq> [] then location @ ''?'' @ url_query req else location);
          target = quote env location
      in RedirectResponse (login_url @ ''?next='' @ target) 303)"

section \<open>Handlers\<close>

text \<open>
  A handler takes the request and what it reads (environment, file system, progress file,
  random source) and returns its response, or the exception it raises, with the session
  and the state it leaves behind.
\<close>

text \<open>\<^verbatim>\<open>GET /login\<close>.\<close>

definition login_page ::
  "environment \<Rightarrow> request \<Rightarrow> entropy \<Rightarrow> response \<times> session \<times> entropy" where
  "login_page env req rnd =
     (let next_path = (case query_next req of None \<Rightarrow> [] | Some v \<Rightarrow> v) in
      if is_authenticated (req_session req) then
        (let destination = url_for_index req;
             destination =
               (if next_path \<noteq> [] then
                  (let candidate = unquote env next_path in
                   if startswith candidate ''/'' then candidate else destination)
                else destination)
         in (RedirectResponse destination 303, req_session req, rnd))
      else
        (let (token, sess, rnd) = ensure_csrf_token (req_session req) rnd
         in (LoginTemplate
               \<lparr>lc_next_path = next_path, lc_error = None, lc_csrf_token = token\<rparr> 200,
             sess, rnd)))"

text \<open>\<^verbatim>\<open>POST /login\<close>, with the form fields as parameters.\<close>

definition login_submit ::
  "environment \<Rightarrow> request \<Rightarrow> string \<Rightarrow> string \<Rightarrow> string \<Rightarrow> string \<Rightarrow> entropy \<Rightarrow>
   response \<times> session \<times> entropy" where
  "login_submit env req username password token next_path rnd =
     (if \<not> validate_csrf_token (req_session req) token then
        (let (tok, sess, rnd) = ensure_csrf_token (req_session req) rnd
         in (LoginTemplate
               \<lparr>lc_next_path = next_path,
                lc_error = Some ''Session expired. Please try again.'',
                lc_csrf_token = tok\<rparr> 400,
             sess, rnd))
      else if password = AUTH_PASSWORD env then
        (let sess = (req_session req)\<lparr>authenticated := Some True\<rparr>;
             sess = sess\<lparr>csrf_token := None\<rparr>;
             (tok, sess, rnd) = ensure_csrf_token sess rnd;
             destination = url_for_index req;
             destination =
               (if next_path \<noteq> [] then
                  (let candidate = unquote env next_path in
                   if startswith candidate ''/'' then candidate else destination)
                else destination)
         in (RedirectResponse destination 303, sess, rnd))
      else
        (let (tok, sess, rnd) = ensure_csrf_token (req_session req) rnd
         in (LoginTemplate
               \<lparr>lc_next_path = next_path,
                lc_error = Some ''Invalid username or password'',
                lc_csrf_token = tok\<rparr> 401,
             sess, rnd)))"

text \<open>\<^verbatim>\<open>POST /logout\<close>.\<close>

definition logout :: "request \<Rightarrow> string \<Rightarrow> (exception + response) \<times> session" where
  "logout req token =
     (if \<not> validate_csrf_token (req_session req) token
      then (Inl (HTTPException 403 ''Invalid CSRF token''), req_session req)
      else (Inr (RedirectResponse (url_for_login req) 303), empty_session))"

text \<open>\<^verbatim>\<open>GET /\<close>.\<close>

definition index ::
  "environment \<Rightarrow> filesystem \<Rightarrow> storage_file \<Rightarrow> request \<Rightarrow> string \<Rightarrow> entropy \<Rightarrow>
   (exception + response) \<times> session \<times> entropy" where
  "index env fs store req path rnd =
     (if \<not> is_authenticated (req_session req)
      then (Inr (login_redirect env req), req_session req, rnd)
      else
        (case list_directory env fs store path of
           Inl e \<Rightarrow> (Inl e, req_session req, rnd)
         | Inr (directories, audio_files) \<Rightarrow>
             (let parent_path =
                    (if path \<noteq> [] then
                       (let par = parent (Path path)
                        in Some (if str_path par = ''.'' then [] else str_path par))
                     else None);
                  (token, sess, rnd) = ensure_csrf_token (req_session req) rnd
              in (Inr (IndexTemplate
                         \<lparr>ic_current_path = path,
                          ic_breadcrumbs = breadcrumb path,
                          ic_directories = directories,
                          ic_audio_files = audio_files,
                          ic_parent_path = parent_path,
                          ic_media_root =
                            (if name (MEDIA_ROOT env) \<noteq> [] then name (MEDIA_ROOT env)
                             else str_abs (MEDIA_ROOT env)),
                          ic_csrf_token = token\<rparr> 200),
                  sess, rnd))))"

text \<open>\<^verbatim>\<open>GET /media\<close>.\<close>

definition media :: "environment \<Rightarrow> filesystem \<Rightarrow> request \<Rightarrow> string \<Rightarrow> exception + response" where
  "media env fs req path =
     (if \<not> is_authenticated (req_session req)
      then Inl (HTTPException 401 ''Not authenticated'')
      else
        (case get_audio_file env fs path of
           Inl e \<Rightarrow> Inl e
         | Inr file_path \<Rightarrow>
             Inr (FileResponse file_path (guess_type env (str_abs file_path)) (name file_path)
                    [(''Accept-Ranges'', ''bytes'')])))"

text \<open>\<^verbatim>\<open>GET /api/progress\<close>.\<close>

definition get_progress ::
  "environment \<Rightarrow> filesystem \<Rightarrow> storage_file \<Rightarrow> request \<Rightarrow> string \<Rightarrow> exception + response" where
  "get_progress env fs store req file =
     (if \<not> is_authenticated (req_session req)
      then Inl (HTTPException 401 ''Not authenticated'')
      else
        (case get_audio_file env fs file of
           Inl e \<Rightarrow> Inl e
         | Inr _ \<Rightarrow>
             (case store_get store file of
                None \<Rightarrow>
                  Inr (JSONResponse
                         [(''position'', JNumber 0), (''duration'', JNumber 0),
                          (''played'', JBool False)])
              | Some progress \<Rightarrow>
                  Inr (JSONResponse
                         [(''position'', JNumber (position progress)),
                          (''duration'', JNumber (duration progress)),
                          (''played'', JBool (played progress))]))))"

text \<open>
  \<^verbatim>\<open>POST /api/progress\<close>, with the body \<^verbatim>\<open>ProgressPayload\<close>: \<^verbatim>\<open>file\<close>, \<^verbatim>\<open>position\<close>
  and \<^verbatim>\<open>duration\<close>.
\<close>

datatype ProgressPayload =
  ProgressPayload (payload_file: string) (payload_position: real) (payload_duration: real)

definition set_progress ::
  "environment \<Rightarrow> filesystem \<Rightarrow> storage_file \<Rightarrow> request \<Rightarrow> ProgressPayload \<Rightarrow>
   (exception + response) \<times> storage_file" where
  "set_progress env fs store req payload =
     (if \<not> is_authenticated (req_session req)
      then (Inl (HTTPException 401 ''Not authenticated''), store)
      else
        (case get_audio_file env fs (payload_file payload) of
           Inl e \<Rightarrow> (Inl e, store)
         | Inr _ \<Rightarrow>
             (let pos = max (payload_position payload) 0;
                  dur = max (payload_duration payload) 0;
                  existing = store_get store (payload_file payload);
                  pl = (case existing of None \<Rightarrow> False | Some r \<Rightarrow> played r);
                  (pos, pl) = (if dur > 0 \<and> pos \<ge> dur * 0.95 then (0, True) else (pos, pl));
                  store = store_set store (payload_file payload) pos dur pl
              in (Inr (JSONResponse
                         [(''status'', JString ''ok''), (''position'', JNumber pos),
                          (''duration'', JNumber dur), (''played'', JBool pl)]),
                  store))))"

section \<open>Notions used in the properties\<close>

text \<open>
  The keys of the snapshot that the backing file holds.
\<close>

definition store_keys :: "storage_file \<Rightarrow> string set" where
  "store_keys f = set (map fst (load f))"

text \<open>
  The played flag that \<^verbatim>\<open>set_progress\<close> and \<^verbatim>\<open>list_directory\<close> read for a key:
  the flag of its record, false when there is none.
\<close>

definition was_played :: "storage_file \<Rightarrow> string \<Rightarrow> bool" where
  "was_played store k = (case store_get store k of None \<Rightarrow> False | Some r \<Rightarrow> played r)"

text \<open>
  A sequence of \<^verbatim>\<open>POST /api/progress\<close> requests served one after the other, each on the
  file system of its time, from a given state of the backing file.
\<close>

fun serve_posts ::
  "environment \<Rightarrow> storage_file \<Rightarrow> (filesystem \<times> request \<times> ProgressPayload) list \<Rightarrow> storage_file" where
  "serve_posts env store [] = store"
| "serve_posts env store ((fs, req, payload) # rest) =
     serve_posts env (snd (set_progress env fs store req payload)) rest"

section \<open>An example installation\<close>

text \<open>
  The media root \<^verbatim>\<open>/srv/media\<close> holds \<^verbatim>\<open>a.mp3\<close>, \<^verbatim>\<open>B.wav\<close>, the directory \<^verbatim>\<open>sub\<close> and
  \<^verbatim>\<open>.hidden.mp3\<close>, on a file system without symbolic links. The library functions of the
  example environment are stand-ins.
\<close>

definition example_fs :: filesystem where
  "example_fs =
     \<lparr>fs_resolve = resolve_nolinks,
      fs_stat = (\<lambda>p.
        if p = [''srv'', ''media''] \<or> p = [''srv'', ''media'', ''sub''] then Some Directory
        else if p = [''srv'', ''media'', ''a.mp3''] \<or> p = [''srv'', ''media'', ''B.wav'']
                \<or> p = [''srv'', ''media'', ''.hidden.mp3''] then Some RegularFile
        else None),
      fs_listdir = (\<lambda>p.
        if p = [''srv'', ''media''] then [''a.mp3'', ''B.wav'', ''sub'', ''.hidden.mp3'']
        else [])\<rparr>"

definition example_env :: environment where
  "example_env =
     \<lparr>MEDIA_ROOT = [''srv'', ''media''], AUTH_PASSWORD = ''correct horse'',
      quote = (\<lambda>s. s), unquote = (\<lambda>s. s), guess_type = (\<lambda>s. None)\<rparr>"

definition example_request :: "session \<Rightarrow> request" where
  "example_request sess =
     \<lparr>req_session = sess, base_url = ''http://player'', url_path = ''/'', url_query = [],
      query_next = None\<rparr>"

definition example_entropy :: entropy where
  "example_entropy n = ''token'' @ replicate n CHR ''x''"

text \<open>
  Sessions, stores and random tokens of the example: a logged-in session, a visitor who
  has loaded the login form, a store where \<^verbatim>\<open>a.mp3\<close> has been played, and the random
  source after its first token has been drawn.
\<close>

definition example_session :: session where
  "example_session = \<lparr>authenticated = Some True, csrf_token = Some ''token''\<rparr>"

definition visitor_session :: session where
  "visitor_session = \<lparr>authenticated = None, csrf_token = Some ''token''\<rparr>"

definition example_record :: progress_record where
  "example_record = \<lparr>position = 12, duration = 100, played = False\<rparr>"

definition played_store :: storage_file where
  "played_store = Json [(''a.mp3'', \<lparr>position = 0, duration = 100, played = True\<rparr>)]"

definition later_entropy :: entropy where
  "later_entropy n = example_entropy (Suc n)"

section \<open>The example installation, evaluated\<close>

lemma example_authenticated: "is_authenticated (req_session (example_request example_session))"
  by (simp add: is_authenticated_def example_request_def example_session_def)

lemma example_anonymous: "\<not> is_authenticated (req_session (example_request empty_session))"
  by (simp add: is_authenticated_def example_request_def empty_session_def)

lemma example_audio_file:
  "get_audio_file example_env example_fs ''a.mp3'' = Inr [''srv'', ''media'', ''a.mp3'']"
  by code_simp

lemma not_played_empty: "\<not> was_played (Json []) ''a.mp3''"
  by (simp add: was_played_def store_get_def)

lemma played_played_store: "was_played played_store ''a.mp3''"
  by (simp add: was_played_def store_get_def played_store_def)

section \<open>Properties of the progress store\<close>

lemma store_get_store_set:
  "store_get (store_set f k pos dur pl) k' =
     (if k' = k then Some \<lparr>position = pos, duration = dur, played = pl\<rparr> else store_get f k')"
  by (simp add: store_get_def store_set_def save_def update_conv')

lemma keys_store_set:
  "set (map fst (load (store_set f k pos dur pl))) = insert k (set (map fst (load f)))"
  unfolding store_set_def save_def Let_def load.simps update_keys by auto

lemma store_keys_store_set: "store_keys (store_set f k pos dur pl) = insert k (store_keys f)"
  unfolding store_keys_def by (rule keys_store_set)







lemma set_progress_ok:
  assumes "is_authenticated (req_session req)"
      and "get_audio_file env fs k = Inr fp"
  shows "set_progress env fs store req (ProgressPayload k pos dur) =
     (if max dur 0 > 0 \<and> max pos 0 \<ge> max dur 0 * 0.95
      then (Inr (JSONResponse
                  [(''status'', JString ''ok''), (''position'', JNumber 0),
                   (''duration'', JNumber (max dur 0)), (''played'', JBool True)]),
            store_set store k 0 (max dur 0) True)
      else (Inr (JSONResponse
                  [(''status'', JString ''ok''), (''position'', JNumber (max pos 0)),
                   (''duration'', JNumber (max dur 0)), (''played'', JBool (was_played store k))]),
            store_set store k (max pos 0) (max dur 0) (was_played store k)))"
  using assms by (auto simp: set_progress_def Let_def was_played_def max_def)

lemma set_progress_refused:
  "\<not> is_authenticated (req_session req) \<Longrightarrow>
     set_progress env fs store req payload = (Inl (HTTPException 401 ''Not authenticated''), store)"
  "is_authenticated (req_session req) \<Longrightarrow> get_audio_file env fs (payload_file payload) = Inl e \<Longrightarrow>
     set_progress env fs store req payload = (Inl e, store)"
  by (simp_all add: set_progress_def)

lemma set_progress_keys:
  "store_keys store \<subseteq> store_keys (snd (set_progress env fs store req payload))"
  by (auto simp: set_progress_def Let_def store_keys_store_set split: sum.splits prod.splits if_splits)

text \<open>
  Claim C3. Setting the record of a key and then getting the key, with no set in between,
  returns exactly the record that was set, whatever the backing file held before.
\<close>

theorem set_then_get_roundtrip:
  "store_get (store_set f k pos dur pl) k = Some \<lparr>position = pos, duration = dur, played = pl\<rparr>"
  by (simp add: store_get_store_set)

text \<open>
  Claim C9. A set leaves the record of every other key as it was and removes no key: the
  keys afterwards are the keys before together with the key set. The only handler that
  writes the store, \<^verbatim>\<open>POST /api/progress\<close>, never loses a key either; no operation of
  the store deletes a record.
\<close>

theorem set_keeps_other_records:
  "(\<forall>k'. k' \<noteq> k \<longrightarrow> store_get (store_set f k pos dur pl) k' = store_get f k')
   \<and> store_keys (store_set f k pos dur pl) = insert k (store_keys f)
   \<and> store_keys store \<subseteq> store_keys (snd (set_progress env fs store req payload))"
  using set_progress_keys [of store env fs req payload]
  by (simp add: store_get_store_set store_keys_store_set)

text \<open>
  The claim on a store that holds one record, after a set of another key.
\<close>

theorem set_keeps_other_records_witness:
  "store_get (store_set (Json [(''a.mp3'', example_record)]) ''B.wav'' 5 60 True) ''a.mp3'' =
     Some example_record
   \<and> store_keys (store_set (Json [(''a.mp3'', example_record)]) ''B.wav'' 5 60 True) =
     {''a.mp3'', ''B.wav''}"
proof -
  note t = set_keeps_other_records
    [of "''B.wav''" "Json [(''a.mp3'', example_record)]" 5 60 True "Json []" example_env
      example_fs "example_request empty_session" "ProgressPayload [] 0 0"]
  have ne: "''a.mp3'' \<noteq> ''B.wav''" by simp
  have g: "store_get (Json [(''a.mp3'', example_record)]) ''a.mp3'' = Some example_record"
    by (simp add: store_get_def)
  have "store_get (store_set (Json [(''a.mp3'', example_record)]) ''B.wav'' 5 60 True) ''a.mp3'' =
     Some example_record"
    using t [THEN conjunct1] ne g by metis
  moreover have "store_keys (store_set (Json [(''a.mp3'', example_record)]) ''B.wav'' 5 60 True) =
     {''a.mp3'', ''B.wav''}"
    using t [THEN conjunct2, THEN conjunct1] by (simp add: store_keys_def insert_commute)
  ultimately show ?thesis by blast
qed




section \<open>Properties of path confinement\<close>











lemma example_env_simps:
  "MEDIA_ROOT example_env = [''srv'', ''media'']"
  "AUTH_PASSWORD example_env = ''correct horse''"
  by (simp_all add: example_env_def)



section \<open>Properties of the progress update\<close>

lemma was_played_step:
  assumes "was_played store k"
  shows "was_played (snd (set_progress env fs store req payload)) k"
proof (cases "is_authenticated (req_session req)")
  case False
  then show ?thesis using assms by (simp add: set_progress_refused)
next
  case auth: True
  show ?thesis
  proof (cases "get_audio_file env fs (payload_file payload)")
    case (Inl e)
    then show ?thesis using assms auth by (simp add: set_progress_refused)
  next
    case (Inr fp)
    obtain f pos dur where p: "payload = ProgressPayload f pos dur" by (cases payload)
    show ?thesis
      using assms Inr unfolding p
      by (auto simp: set_progress_ok [OF auth] was_played_def store_get_store_set)
  qed
qed

lemma was_played_serve_posts: "was_played store k \<Longrightarrow> was_played (serve_posts env store posts) k"
proof (induction env store posts rule: serve_posts.induct)
  case (1 env store)
  then show ?case by simp
next
  case (2 env store fs req payload rest)
  from 2(2) have "was_played (snd (set_progress env fs store req payload)) k"
    by (rule was_played_step)
  then show ?case using 2(1) by simp
qed

text \<open>
  Claim C2. For an authenticated update of an audio file with duration 100: position 96
  stores position 0, duration 100 and played true; position 50 stores position 50,
  duration 100 and played false when the file was not played before; and once a file is
  played, it stays played after every update of it, whatever position and duration the
  update reports, and after every sequence of later requests.
\<close>

theorem progress_update_policy:
  assumes "is_authenticated (req_session req)"
      and "get_audio_file env fs k = Inr fp"
  shows "store_get (snd (set_progress env fs store req (ProgressPayload k 96 100))) k =
           Some \<lparr>position = 0, duration = 100, played = True\<rparr>
    \<and> (\<not> was_played store k \<longrightarrow>
         store_get (snd (set_progress env fs store req (ProgressPayload k 50 100))) k =
           Some \<lparr>position = 50, duration = 100, played = False\<rparr>)
    \<and> (was_played store k \<longrightarrow>
         (\<forall>pos dur. was_played (snd (set_progress env fs store req (ProgressPayload k pos dur))) k)
         \<and> (\<forall>posts. was_played (serve_posts env store posts) k))"
proof -
  have a: "store_get (snd (set_progress env fs store req (ProgressPayload k 96 100))) k =
           Some \<lparr>position = 0, duration = 100, played = True\<rparr>"
    by (simp add: set_progress_ok [OF assms] store_get_store_set)
  have b: "\<not> was_played store k \<Longrightarrow>
         store_get (snd (set_progress env fs store req (ProgressPayload k 50 100))) k =
           Some \<lparr>position = 50, duration = 100, played = False\<rparr>"
    by (simp add: set_progress_ok [OF assms] store_get_store_set)
  show ?thesis
    using a b was_played_step was_played_serve_posts by blast
qed

text \<open>The claim on the example: a first update of \<^verbatim>\<open>a.mp3\<close>, and an update after it was played.\<close>

theorem progress_update_policy_witness:
  "store_get (snd (set_progress example_env example_fs (Json []) (example_request example_session)
      (ProgressPayload ''a.mp3'' 96 100))) ''a.mp3'' =
     Some \<lparr>position = 0, duration = 100, played = True\<rparr>
   \<and> store_get (snd (set_progress example_env example_fs (Json []) (example_request example_session)
      (ProgressPayload ''a.mp3'' 50 100))) ''a.mp3'' =
     Some \<lparr>position = 50, duration = 100, played = False\<rparr>
   \<and> was_played (snd (set_progress example_env example_fs played_store
      (example_request example_session) (ProgressPayload ''a.mp3'' 10 100))) ''a.mp3''"
proof -
  note fresh = progress_update_policy
    [OF example_authenticated example_audio_file, of "Json []"]
  note again = progress_update_policy
    [OF example_authenticated example_audio_file, of played_store]
  show ?thesis
    using fresh not_played_empty again played_played_store by blast
qed

text \<open>
  Claim C10. For an authenticated update of an audio file with a duration of zero or
  less, the stored and returned position is \<open>max position 0\<close>, not reset, the duration is
  \<open>max duration 0\<close>, which is zero, and the played flag is the one stored before (false
  without a record), although the position does reach 95 percent of that duration.
\<close>

theorem nonpositive_duration_never_completes:
  assumes "is_authenticated (req_session req)"
      and "get_audio_file env fs k = Inr fp"
      and "dur \<le> 0"
  shows "set_progress env fs store req (ProgressPayload k pos dur) =
           (Inr (JSONResponse
                  [(''status'', JString ''ok''), (''position'', JNumber (max pos 0)),
                   (''duration'', JNumber (max dur 0)), (''played'', JBool (was_played store k))]),
            store_set store k (max pos 0) (max dur 0) (was_played store k))
    \<and> store_get (snd (set_progress env fs store req (ProgressPayload k pos dur))) k =
           Some \<lparr>position = max pos 0, duration = max dur 0, played = was_played store k\<rparr>
    \<and> max dur 0 = 0
    \<and> max pos 0 \<ge> max dur 0 * 0.95"
  using assms(3) by (simp add: set_progress_ok [OF assms(1,2)] store_get_store_set)

text \<open>The claim on the example: an update of \<^verbatim>\<open>a.mp3\<close> with duration zero.\<close>

theorem nonpositive_duration_witness:
  "store_get (snd (set_progress example_env example_fs (Json []) (example_request example_session)
      (ProgressPayload ''a.mp3'' 7 0))) ''a.mp3'' =
     Some \<lparr>position = 7, duration = 0, played = False\<rparr>"
proof -
  have le: "(0::real) \<le> 0" by simp
  note t = nonpositive_duration_never_completes
    [OF example_authenticated example_audio_file le, of "Json []" 7,
     THEN conjunct2, THEN conjunct1]
  show ?thesis
    using t not_played_empty by simp
qed

section \<open>Properties of the authentication gate\<close>

text \<open>
  Claim C5. Without the authenticated flag in the session, the index answers with the
  303 redirect to the login page and leaves session and random source as they were;
  \<^verbatim>\<open>/media\<close> and both \<^verbatim>\<open>/api/progress\<close> routes raise the 401 error, a client error;
  the store is returned unchanged; and every answer is the same on any other file system
  and any other store: neither is consulted.
\<close>

theorem unauthenticated_refused:
  assumes "\<not> is_authenticated (req_session req)"
  shows "index env fs store req path rnd =
           (Inr (RedirectResponse
                   (url_for_login req @ ''?next='' @
                    quote env (if url_query req \<noteq> [] then url_path req @ ''?'' @ url_query req
                               else url_path req)) 303),
            req_session req, rnd)
    \<and> media env fs req path = Inl (HTTPException 401 ''Not authenticated'')
    \<and> get_progress env fs store req file = Inl (HTTPException 401 ''Not authenticated'')
    \<and> set_progress env fs store req payload =
           (Inl (HTTPException 401 ''Not authenticated''), store)
    \<and> client_error (HTTPException 401 ''Not authenticated'')
    \<and> index env fs store req path rnd = index env fs' store' req path rnd
    \<and> media env fs req path = media env fs' req path
    \<and> get_progress env fs store req file = get_progress env fs' store' req file
    \<and> fst (set_progress env fs store req payload) = fst (set_progress env fs' store' req payload)"
  using assms
  by (simp add: index_def media_def get_progress_def set_progress_def login_redirect_def
      Let_def client_error_def)

text \<open>The claim on the example: requests with an empty session.\<close>

theorem unauthenticated_refused_witness:
  "media example_env example_fs (example_request empty_session) ''a.mp3'' =
     Inl (HTTPException 401 ''Not authenticated'')
   \<and> get_progress example_env example_fs played_store (example_request empty_session) ''a.mp3'' =
     Inl (HTTPException 401 ''Not authenticated'')
   \<and> set_progress example_env example_fs played_store (example_request empty_session)
       (ProgressPayload ''a.mp3'' 96 100) =
     (Inl (HTTPException 401 ''Not authenticated''), played_store)
   \<and> fst (index example_env example_fs played_store (example_request empty_session) []
       example_entropy) =
     Inr (RedirectResponse ''http://player/login?next=/'' 303)"
proof -
  note t = unauthenticated_refused [OF example_anonymous, of example_env example_fs played_store]
  have loc: "url_for_login (example_request empty_session) @ ''?next='' @
       quote example_env
        (if url_query (example_request empty_session) \<noteq> []
         then url_path (example_request empty_session) @ ''?'' @
              url_query (example_request empty_session)
         else url_path (example_request empty_session)) = ''http://player/login?next=/''"
    by (simp add: url_for_login_def example_request_def example_env_def)
  have i: "fst (index example_env example_fs played_store (example_request empty_session) []
       example_entropy) = Inr (RedirectResponse ''http://player/login?next=/'' 303)"
    using t [of "[]" example_entropy, THEN conjunct1] unfolding loc by simp
  show ?thesis
    using t [of _ _ "''a.mp3''" "ProgressPayload ''a.mp3'' 96 100"] i by blast
qed

section \<open>Properties of the CSRF token and the login\<close>

lemma validate_csrf_token_iff:
  "validate_csrf_token sess tok \<longleftrightarrow>
     csrf_token sess = Some tok \<and> tok \<noteq> [] \<and> is_ascii tok"
  by (auto simp: validate_csrf_token_def compare_digest_def split: option.splits)

lemma ensure_existing:
  "csrf_token sess = Some tok \<Longrightarrow> tok \<noteq> [] \<Longrightarrow> ensure_csrf_token sess rnd = (tok, sess, rnd)"
  by (simp add: ensure_csrf_token_def)

lemma ensure_minted:
  "csrf_token sess = None \<or> csrf_token sess = Some [] \<Longrightarrow>
   ensure_csrf_token sess rnd = (rnd 0, sess\<lparr>csrf_token := Some (rnd 0)\<rparr>, \<lambda>n. rnd (Suc n))"
  by (auto simp: ensure_csrf_token_def token_urlsafe_def)

lemma ensure_twice:
  assumes "rnd 0 \<noteq> []"
  shows "ensure_csrf_token (fst (snd (ensure_csrf_token sess rnd)))
           (snd (snd (ensure_csrf_token sess rnd))) = ensure_csrf_token sess rnd"
proof (cases "csrf_token sess = None \<or> csrf_token sess = Some []")
  case True
  show ?thesis
    unfolding ensure_minted [OF True] using assms by (simp add: ensure_existing)
next
  case False
  then obtain tok where "csrf_token sess = Some tok" "tok \<noteq> []" by auto
  then show ?thesis by (simp add: ensure_existing)
qed

lemma login_success:
  assumes "validate_csrf_token (req_session req) tok" and "password = AUTH_PASSWORD env"
  shows "snd (login_submit env req username password tok next_path rnd) =
           ((req_session req)\<lparr>authenticated := Some True, csrf_token := Some (rnd 0)\<rparr>,
            \<lambda>n. rnd (Suc n))"
  using assms
  by (simp add: login_submit_def Let_def ensure_minted)

lemma example_entropy_0: "example_entropy 0 = ''token''"
  by (simp add: example_entropy_def)

lemma later_entropy_0: "later_entropy 0 = ''tokenx''"
  by (simp add: later_entropy_def example_entropy_def)

lemma visitor_token_valid:
  "validate_csrf_token (req_session (example_request visitor_session)) ''token''"
  by (simp add: validate_csrf_token_iff example_request_def visitor_session_def is_ascii_def)

lemma login_after_form:
  assumes "inj rnd" and "rnd 0 \<noteq> []" and "is_ascii (rnd 0)"
      and "csrf_token (req_session req) = None" and "password = AUTH_PASSWORD env"
  shows "(let (t0, s0, r0) = ensure_csrf_token (req_session req) rnd;
              (resp, s1, r1) =
                login_submit env (req\<lparr>req_session := s0\<rparr>) username password t0 next_path r0
          in t0 = rnd 0 \<and> validate_csrf_token s0 t0 \<and> is_authenticated s1 \<and>
             csrf_token s1 = Some (rnd 1) \<and> rnd 1 \<noteq> t0 \<and> \<not> validate_csrf_token s1 t0)"
proof -
  let ?s0 = "(req_session req)\<lparr>csrf_token := Some (rnd 0)\<rparr>"
  let ?r0 = "\<lambda>n. rnd (Suc n)"
  have e: "ensure_csrf_token (req_session req) rnd = (rnd 0, ?s0, ?r0)"
    using assms(4) by (simp add: ensure_minted)
  have v: "validate_csrf_token (req_session (req\<lparr>req_session := ?s0\<rparr>)) (rnd 0)"
    using assms(2,3) by (simp add: validate_csrf_token_iff)
  have ne: "rnd 1 \<noteq> rnd 0"
    using assms(1) by (simp add: inj_eq)
  have snd_login: "snd (login_submit env (req\<lparr>req_session := ?s0\<rparr>) username password (rnd 0)
            next_path ?r0) =
        (?s0\<lparr>authenticated := Some True, csrf_token := Some (rnd 1)\<rparr>, \<lambda>n. rnd (Suc (Suc n)))"
    using login_success [OF v assms(5), of username next_path ?r0] by simp
  obtain resp s1 r1 where l: "login_submit env (req\<lparr>req_session := ?s0\<rparr>) username password
      (rnd 0) next_path ?r0 = (resp, s1, r1)"
    by (cases "login_submit env (req\<lparr>req_session := ?s0\<rparr>) username password (rnd 0) next_path ?r0")
  have s1: "s1 = ?s0\<lparr>authenticated := Some True, csrf_token := Some (rnd 1)\<rparr>"
    using snd_login unfolding l by simp
  show ?thesis
    unfolding e using v ne by (simp add: l s1 is_authenticated_def validate_csrf_token_iff)
qed

lemma inj_example_entropy: "inj example_entropy"
proof (rule injI)
  fix x y assume "example_entropy x = example_entropy y"
  then have "length (example_entropy x) = length (example_entropy y)" by simp
  then show "x = y" by (simp add: example_entropy_def)
qed

lemma ascii_token: "is_ascii (example_entropy 0)"
  by (simp add: example_entropy_def is_ascii_def)

text \<open>
  Claim C4. When the random source yields a token that is not empty, a second call of
  \<^verbatim>\<open>ensure_csrf_token\<close> returns what the first returned and changes nothing; on a session
  without a token both calls return the token drawn by the first. A login with a valid
  token and the right password sets the authenticated flag and stores a newly drawn token;
  when that token differs from the one held before the login, the old one is rejected by
  \<^verbatim>\<open>validate_csrf_token\<close> on the new session. In particular, when the random source never
  repeats a token, the token that a new visitor obtains with the login form is accepted by
  the login and rejected after it.
\<close>

theorem csrf_token_idempotent_and_rotated:
  "(rnd 0 \<noteq> [] \<longrightarrow>
      ensure_csrf_token (fst (snd (ensure_csrf_token sess rnd)))
        (snd (snd (ensure_csrf_token sess rnd))) = ensure_csrf_token sess rnd)
   \<and> (rnd 0 \<noteq> [] \<and> csrf_token sess = None \<longrightarrow>
      fst (ensure_csrf_token sess rnd) = rnd 0 \<and>
      fst (ensure_csrf_token (fst (snd (ensure_csrf_token sess rnd)))
             (snd (snd (ensure_csrf_token sess rnd)))) = rnd 0)
   \<and> (validate_csrf_token (req_session req) tok \<and> password = AUTH_PASSWORD env \<and>
       rnd 0 \<noteq> tok \<longrightarrow>
      is_authenticated (fst (snd (login_submit env req username password tok next_path rnd))) \<and>
      csrf_token (req_session req) = Some tok \<and>
      csrf_token (fst (snd (login_submit env req username password tok next_path rnd))) =
        Some (rnd 0) \<and>
      \<not> validate_csrf_token
          (fst (snd (login_submit env req username password tok next_path rnd))) tok)
   \<and> (inj rnd \<and> rnd 0 \<noteq> [] \<and> is_ascii (rnd 0) \<and> csrf_token (req_session req) = None \<and>
       password = AUTH_PASSWORD env \<longrightarrow>
      validate_csrf_token (fst (snd (ensure_csrf_token (req_session req) rnd)))
        (fst (ensure_csrf_token (req_session req) rnd)) \<and>
      is_authenticated
        (fst (snd (login_submit env
           (req\<lparr>req_session := fst (snd (ensure_csrf_token (req_session req) rnd))\<rparr>)
           username password (fst (ensure_csrf_token (req_session req) rnd)) next_path
           (snd (snd (ensure_csrf_token (req_session req) rnd)))))) \<and>
      \<not> validate_csrf_token
        (fst (snd (login_submit env
           (req\<lparr>req_session := fst (snd (ensure_csrf_token (req_session req) rnd))\<rparr>)
           username password (fst (ensure_csrf_token (req_session req) rnd)) next_path
           (snd (snd (ensure_csrf_token (req_session req) rnd))))))
        (fst (ensure_csrf_token (req_session req) rnd)))"
  (is "?A \<and> ?B \<and> ?C \<and> ?D")
proof -
  have a: ?A
    using ensure_twice by blast
  have b: ?B
  proof (intro impI, elim conjE)
    assume h: "rnd 0 \<noteq> []" "csrf_token sess = None"
    have first: "fst (ensure_csrf_token sess rnd) = rnd 0"
      using h(2) by (simp add: ensure_minted)
    show "fst (ensure_csrf_token sess rnd) = rnd 0 \<and>
      fst (ensure_csrf_token (fst (snd (ensure_csrf_token sess rnd)))
             (snd (snd (ensure_csrf_token sess rnd)))) = rnd 0"
      using first ensure_twice [of rnd sess, OF h(1)] by simp
  qed
  have c: ?C
    by (simp add: login_success is_authenticated_def validate_csrf_token_iff)
  have d: ?D
  proof (intro impI, elim conjE)
    assume h: "inj rnd" "rnd 0 \<noteq> []" "is_ascii (rnd 0)" "csrf_token (req_session req) = None"
      "password = AUTH_PASSWORD env"
    show "validate_csrf_token (fst (snd (ensure_csrf_token (req_session req) rnd)))
        (fst (ensure_csrf_token (req_session req) rnd)) \<and>
      is_authenticated
        (fst (snd (login_submit env
           (req\<lparr>req_session := fst (snd (ensure_csrf_token (req_session req) rnd))\<rparr>)
           username password (fst (ensure_csrf_token (req_session req) rnd)) next_path
           (snd (snd (ensure_csrf_token (req_session req) rnd)))))) \<and>
      \<not> validate_csrf_token
        (fst (snd (login_submit env
           (req\<lparr>req_session := fst (snd (ensure_csrf_token (req_session req) rnd))\<rparr>)
           username password (fst (ensure_csrf_token (req_session req) rnd)) next_path
           (snd (snd (ensure_csrf_token (req_session req) rnd))))))
        (fst (ensure_csrf_token (req_session req) rnd))"
      using login_after_form [OF h, of username next_path, unfolded Let_def case_prod_beta]
      by blast
  qed
  show ?thesis
    using a b c d by (rule conjI [OF _ conjI [OF _ conjI]])
qed

text \<open>The claim on the example: two calls on an empty session, and the login of a visitor.\<close>

theorem csrf_token_witness:
  "fst (ensure_csrf_token empty_session example_entropy) = ''token''
   \<and> fst (ensure_csrf_token (fst (snd (ensure_csrf_token empty_session example_entropy)))
            (snd (snd (ensure_csrf_token empty_session example_entropy)))) = ''token''
   \<and> csrf_token (fst (snd (login_submit example_env (example_request visitor_session) ''user''
         ''correct horse'' ''token'' [] later_entropy))) = Some ''tokenx''
   \<and> \<not> validate_csrf_token
         (fst (snd (login_submit example_env (example_request visitor_session) ''user''
            ''correct horse'' ''token'' [] later_entropy))) ''token''
   \<and> \<not> validate_csrf_token
        (fst (snd (login_submit example_env
           ((example_request empty_session)
              \<lparr>req_session := fst (snd (ensure_csrf_token
                 (req_session (example_request empty_session)) example_entropy))\<rparr>)
           ''user'' ''correct horse''
           (fst (ensure_csrf_token (req_session (example_request empty_session)) example_entropy))
           []
           (snd (snd (ensure_csrf_token (req_session (example_request empty_session))
              example_entropy))))))
        (fst (ensure_csrf_token (req_session (example_request empty_session)) example_entropy))"
proof -
  have ne: "example_entropy 0 \<noteq> []" "later_entropy 0 \<noteq> ''token''"
    by (simp_all add: example_entropy_0 later_entropy_0)
  have fresh: "csrf_token empty_session = None"
    "csrf_token (req_session (example_request empty_session)) = None"
    by (simp_all add: empty_session_def example_request_def)
  note twice = csrf_token_idempotent_and_rotated
    [of example_entropy empty_session, THEN conjunct2, THEN conjunct1]
  note rotate = csrf_token_idempotent_and_rotated
    [of later_entropy _ "example_request visitor_session" "''token''" "''correct horse''"
      example_env "''user''" "[]", THEN conjunct2, THEN conjunct2, THEN conjunct1]
  note flow = csrf_token_idempotent_and_rotated
    [of example_entropy _ "example_request empty_session" _ "''correct horse''"
      example_env "''user''" "[]", THEN conjunct2, THEN conjunct2, THEN conjunct2]
  have a: "fst (ensure_csrf_token empty_session example_entropy) = ''token''
   \<and> fst (ensure_csrf_token (fst (snd (ensure_csrf_token empty_session example_entropy)))
            (snd (snd (ensure_csrf_token empty_session example_entropy)))) = ''token''"
    using twice ne(1) fresh(1) unfolding example_entropy_0 by blast
  have b: "csrf_token (fst (snd (login_submit example_env (example_request visitor_session) ''user''
         ''correct horse'' ''token'' [] later_entropy))) = Some ''tokenx''
   \<and> \<not> validate_csrf_token
         (fst (snd (login_submit example_env (example_request visitor_session) ''user''
            ''correct horse'' ''token'' [] later_entropy))) ''token''"
    using rotate visitor_token_valid example_env_simps(2) ne(2) unfolding later_entropy_0
    by metis
  have c: "\<not> validate_csrf_token
        (fst (snd (login_submit example_env
           ((example_request empty_session)
              \<lparr>req_session := fst (snd (ensure_csrf_token
                 (req_session (example_request empty_session)) example_entropy))\<rparr>)
           ''user'' ''correct horse''
           (fst (ensure_csrf_token (req_session (example_request empty_session)) example_entropy))
           []
           (snd (snd (ensure_csrf_token (req_session (example_request empty_session))
              example_entropy))))))
        (fst (ensure_csrf_token (req_session (example_request empty_session)) example_entropy))"
    using flow inj_example_entropy ne(1) ascii_token fresh(2) example_env_simps(2) by metis
  show ?thesis using a b c by blast
qed

text \<open>
  Claim C8, as the code has it. A login with a valid token and a wrong password renders
  the login form again with status 401 and the message "Invalid username or password",
  whatever the user name was; the form carries the token that the session already held,
  and the session and the random source are left as they were.
\<close>

theorem failed_login_rerenders_form:
  assumes "validate_csrf_token (req_session req) tok"
      and "password \<noteq> AUTH_PASSWORD env"
  shows "login_submit env req username password tok next_path rnd =
           (LoginTemplate
              \<lparr>lc_next_path = next_path, lc_error = Some ''Invalid username or password'',
               lc_csrf_token = tok\<rparr> 401,
            req_session req, rnd)
    \<and> csrf_token (req_session req) = Some tok
    \<and> login_submit env req username password tok next_path rnd =
        login_submit env req username' password tok next_path rnd"
  using assms
  by (simp add: login_submit_def validate_csrf_token_iff ensure_existing)

text \<open>The claim on the example: the visitor submits a wrong password.\<close>

theorem failed_login_witness:
  "login_submit example_env (example_request visitor_session) ''user'' ''wrong guess'' ''token''
     [] example_entropy =
   (LoginTemplate
      \<lparr>lc_next_path = [], lc_error = Some ''Invalid username or password'',
       lc_csrf_token = ''token''\<rparr> 401,
    visitor_session, example_entropy)"
proof -
  have wrong: "''wrong guess'' \<noteq> AUTH_PASSWORD example_env"
    unfolding example_env_simps by simp
  have s: "req_session (example_request visitor_session) = visitor_session"
    by (simp add: example_request_def)
  show ?thesis
    using failed_login_rerenders_form [OF visitor_token_valid wrong, of "''user''" "[]"
        example_entropy, THEN conjunct1]
    unfolding s .
qed

text \<open>
  Claim C8 as stated asks for a token that differs from the one held before the failed
  attempt. For the visitor of the example the form carries the very token of the session.
\<close>

theorem failed_login_keeps_token:
  "validate_csrf_token (req_session (example_request visitor_session)) ''token''
   \<and> ''wrong guess'' \<noteq> AUTH_PASSWORD example_env
   \<and> csrf_token (req_session (example_request visitor_session)) = Some ''token''
   \<and> fst (login_submit example_env (example_request visitor_session) ''user'' ''wrong guess''
        ''token'' [] example_entropy) =
      LoginTemplate
        \<lparr>lc_next_path = [], lc_error = Some ''Invalid username or password'',
         lc_csrf_token = ''token''\<rparr> 401
   \<and> csrf_token (fst (snd (login_submit example_env (example_request visitor_session) ''user''
        ''wrong guess'' ''token'' [] example_entropy))) = Some ''token''"
proof -
  have wrong: "''wrong guess'' \<noteq> AUTH_PASSWORD example_env"
    unfolding example_env_simps by simp
  have tok: "csrf_token (req_session (example_request visitor_session)) = Some ''token''"
    by (simp add: example_request_def visitor_session_def)
  have run: "login_submit example_env (example_request visitor_session) ''user'' ''wrong guess''
        ''token'' [] example_entropy =
      (LoginTemplate
        \<lparr>lc_next_path = [], lc_error = Some ''Invalid username or password'',
         lc_csrf_token = ''token''\<rparr> 401, req_session (example_request visitor_session),
       example_entropy)"
    using visitor_token_valid wrong tok
    by (simp add: login_submit_def ensure_existing)
  show ?thesis
    using visitor_token_valid wrong tok unfolding run by simp
qed

section \<open>Properties of the directory catalog\<close>














end
